theory Spec2Isabelle
  imports Complex_Main
begin

section \<open>Paper trading service: order execution and position accounting\<close>

text \<open>
  The embedding follows \<^verbatim>\<open>src/main.py\<close>. Python floats are modelled as
  \<^typ>\<open>real\<close>: arithmetic is exact, rounding, infinities and NaN are not
  represented. The price source (\<^verbatim>\<open>get_current_price\<close>, a network call that
  yields \<open>0.0\<close> when no price is available) and the clock
  (\<^verbatim>\<open>datetime.utcnow().isoformat()\<close>) are inputs of the operations. The
  accounts file is the store \<open>accounts\<close>, read at the start of an operation and
  written by \<^verbatim>\<open>save_accounts\<close> only.
\<close>

subsection \<open>Trading configuration\<close>

definition SLIPPAGE_PERCENT :: real where
  "SLIPPAGE_PERCENT = 1 / 10"

definition COMMISSION_PER_TRADE :: real where
  "COMMISSION_PER_TRADE = 0"

definition STARTING_CASH :: real where
  "STARTING_CASH = 100000"

subsection \<open>Models\<close>

record Order =
  ord_ticker :: string
  ord_type :: string
  ord_side :: string
  ord_quantity :: real
  ord_limitPrice :: "real option"

text \<open>
  The message of a filled order is the f-string
  \<^verbatim>\<open>f"Order filled at ${execution_price:.2f}"\<close>; its decimal rendering is not
  modelled, the constructor \<open>OrderFilledAt\<close> keeps the price it prints.
\<close>

datatype message = Text string | OrderFilledAt real

record OrderResponse =
  rsp_orderId :: string
  rsp_status :: string
  rsp_filledPrice :: "real option"
  rsp_filledQuantity :: "real option"
  rsp_message :: message

record Position =
  pos_ticker :: string
  pos_quantity :: real
  pos_avgCostBasis :: real
  pos_currentPrice :: "real option"
  pos_marketValue :: "real option"
  pos_unrealizedPL :: "real option"
  pos_unrealizedPLPercent :: "real option"

text \<open>The dictionary appended to \<^verbatim>\<open>account['orders']\<close>.\<close>

record OrderRecord =
  rec_orderId :: string
  rec_ticker :: string
  rec_type :: string
  rec_side :: string
  rec_quantity :: real
  rec_filledPrice :: real
  rec_filledQuantity :: real
  rec_status :: string
  rec_timestamp :: string

record PaperAccount =
  userId :: string
  cash :: real
  positions :: "Position list"
  orders :: "OrderRecord list"
  totalValue :: "real option"
  totalPL :: "real option"
  totalPLPercent :: "real option"
  createdAt :: string

type_synonym accounts = "string \<rightharpoonup> PaperAccount"

datatype error = HTTPException nat string | ZeroDivisionError

text \<open>
  A block of \<^verbatim>\<open>place_order\<close> either raises, returns a rejected response
  with a message, or goes on with a value.
\<close>

datatype 'a outcome = Raised error | Rejected string | Proceed 'a

subsection \<open>Helper functions\<close>

text \<open>\<^verbatim>\<open>verify_token\<close> resolves every request to the same user.\<close>

definition user_id :: string where
  "user_id = ''user_1''"

definition apply_slippage :: "real \<Rightarrow> string \<Rightarrow> real" where
  "apply_slippage price side =
     (let slippage = price * (SLIPPAGE_PERCENT / 100)
      in if side = ''buy'' then price + slippage else price - slippage)"

text \<open>Python's \<^verbatim>\<open>str\<close> of a non-negative integer, for the order id.\<close>

definition digit_char :: "nat \<Rightarrow> char" where
  "digit_char d = ''0123456789'' ! d"

function str_nat :: "nat \<Rightarrow> string" where
  "str_nat n = (if n < 10 then [digit_char n] else str_nat (n div 10) @ [digit_char (n mod 10)])"
  by pat_completeness auto
termination
  by (relation "measure id") auto

declare str_nat.simps [simp del]

text \<open>
  The loop \<^verbatim>\<open>for pos in account['positions']: if pos['ticker'] == order.ticker: ...; break\<close>:
  the first position of that ticker.
\<close>

fun find_position :: "string \<Rightarrow> Position list \<Rightarrow> Position option" where
  "find_position t [] = None"
| "find_position t (pos # ps) = (if pos_ticker pos = t then Some pos else find_position t ps)"

text \<open>
  The position found by that loop is a dictionary inside the list, and the code assigns to
  its keys: the list changes at that element, and nowhere else.
\<close>

fun update_position :: "string \<Rightarrow> (Position \<Rightarrow> Position) \<Rightarrow> Position list \<Rightarrow> Position list" where
  "update_position t f [] = []"
| "update_position t f (pos # ps) =
     (if pos_ticker pos = t then f pos # ps else pos # update_position t f ps)"

subsection \<open>Valuation: \<^verbatim>\<open>calculate_account_metrics\<close>\<close>

text \<open>The body of the loop for one position: the position with its metrics, and its market value.\<close>

definition position_metrics :: "(string \<Rightarrow> real) \<Rightarrow> Position \<Rightarrow> Position \<times> real" where
  "position_metrics get_current_price position =
     (let current_price = get_current_price (pos_ticker position);
          market_value = pos_quantity position * current_price;
          cost_basis = pos_quantity position * pos_avgCostBasis position;
          unrealized_pl = market_value - cost_basis
      in (position\<lparr>pos_currentPrice := Some current_price,
                    pos_marketValue := Some market_value,
                    pos_unrealizedPL := Some unrealized_pl,
                    pos_unrealizedPLPercent :=
                      Some (if cost_basis > 0 then unrealized_pl / cost_basis * 100 else 0)\<rparr>,
          market_value))"

fun metrics_loop :: "(string \<Rightarrow> real) \<Rightarrow> Position list \<Rightarrow> real \<Rightarrow> Position list \<times> real" where
  "metrics_loop get_current_price [] total_market_value = ([], total_market_value)"
| "metrics_loop get_current_price (position # ps) total_market_value =
     (let (position', market_value) = position_metrics get_current_price position;
          (ps', total') = metrics_loop get_current_price ps (total_market_value + market_value)
      in (position' # ps', total'))"

definition calculate_account_metrics :: "(string \<Rightarrow> real) \<Rightarrow> PaperAccount \<Rightarrow> PaperAccount" where
  "calculate_account_metrics get_current_price account =
     (let initial_value = STARTING_CASH;
          (ps, total_market_value) =
             metrics_loop get_current_price (positions account) (cash account);
          total_pl = total_market_value - initial_value
      in account\<lparr>positions := ps,
                  totalValue := Some total_market_value,
                  totalPL := Some total_pl,
                  totalPLPercent :=
                    Some (if initial_value > 0 then total_pl / initial_value * 100 else 0)\<rparr>)"

subsection \<open>Order execution: \<^verbatim>\<open>place_order\<close>\<close>

definition rejected_response :: "string \<Rightarrow> OrderResponse" where
  "rejected_response m =
     \<lparr>rsp_orderId = '''', rsp_status = ''rejected'', rsp_filledPrice = None,
      rsp_filledQuantity = None, rsp_message = Text m\<rparr>"

text \<open>Lines 214 to 234: the execution price, or the rejection of a limit order.\<close>

definition execution_price :: "Order \<Rightarrow> real \<Rightarrow> real outcome" where
  "execution_price order market_price =
     (if ord_type order = ''market'' then Proceed (apply_slippage market_price (ord_side order))
      else (case ord_limitPrice order of
              None \<Rightarrow> Rejected ''Limit price required for limit orders''
            | Some limit_price \<Rightarrow>
                if ord_side order = ''buy'' \<and> limit_price \<ge> market_price then Proceed limit_price
                else if ord_side order = ''sell'' \<and> limit_price \<le> market_price then Proceed limit_price
                else Rejected ''Limit price not favorable for immediate execution''))"

text \<open>
  Lines 237 to 269, the buy branch. The division by \<open>total_quantity\<close> is a float
  division: Python raises \<open>ZeroDivisionError\<close> when it is zero. On doubles the test
  \<^verbatim>\<open>account['cash'] < total_cost\<close> is false when the cost is NaN, and every
  operation of lines 259 to 261 rounds; real numbers have no NaN and do not round, so no
  statement below is about a NaN input or about the last bits of a stored value.
\<close>

definition execute_buy :: "PaperAccount \<Rightarrow> Order \<Rightarrow> real \<Rightarrow> PaperAccount outcome" where
  "execute_buy account order price =
     (let total_cost = ord_quantity order * price + COMMISSION_PER_TRADE
      in if cash account < total_cost then Rejected ''Insufficient funds''
         else
           let account1 = account\<lparr>cash := cash account - total_cost\<rparr>
           in (case find_position (ord_ticker order) (positions account1) of
                 Some existing_position \<Rightarrow>
                   let total_quantity = pos_quantity existing_position + ord_quantity order;
                       total_cost_basis =
                         pos_quantity existing_position * pos_avgCostBasis existing_position
                         + ord_quantity order * price
                   in if total_quantity = 0 then Raised ZeroDivisionError
                      else Proceed (account1\<lparr>positions :=
                             update_position (ord_ticker order)
                               (\<lambda>p. p\<lparr>pos_avgCostBasis := total_cost_basis / total_quantity,
                                       pos_quantity := total_quantity\<rparr>)
                               (positions account1)\<rparr>)
               | None \<Rightarrow>
                   Proceed (account1\<lparr>positions := positions account1 @
                     [\<lparr>pos_ticker = ord_ticker order, pos_quantity = ord_quantity order,
                       pos_avgCostBasis = price, pos_currentPrice = None, pos_marketValue = None,
                       pos_unrealizedPL = None, pos_unrealizedPLPercent = None\<rparr>]\<rparr>)))"

text \<open>
  Lines 271 to 303, the sell branch, taken for every side other than \<open>buy\<close>.
  \<^verbatim>\<open>list.remove\<close> deletes the first element equal to the updated position.
\<close>

definition execute_sell :: "PaperAccount \<Rightarrow> Order \<Rightarrow> real \<Rightarrow> PaperAccount outcome" where
  "execute_sell account order price =
     (case find_position (ord_ticker order) (positions account) of
        None \<Rightarrow> Rejected ''No position to sell''
      | Some position \<Rightarrow>
          if pos_quantity position < ord_quantity order then Rejected ''Insufficient shares''
          else
            let proceeds = ord_quantity order * price - COMMISSION_PER_TRADE;
                account1 = account\<lparr>cash := cash account + proceeds\<rparr>;
                position' = position\<lparr>pos_quantity := pos_quantity position - ord_quantity order\<rparr>;
                ps = update_position (ord_ticker order)
                       (\<lambda>p. p\<lparr>pos_quantity := pos_quantity p - ord_quantity order\<rparr>)
                       (positions account1)
            in Proceed (account1\<lparr>positions :=
                 (if pos_quantity position' = 0 then remove1 position' ps else ps)\<rparr>))"

text \<open>Lines 305 to 317: the order record, appended to the history.\<close>

definition order_id_of :: "PaperAccount \<Rightarrow> string" where
  "order_id_of account = ''order_'' @ str_nat (length (orders account) + 1)"

definition record_order :: "PaperAccount \<Rightarrow> Order \<Rightarrow> real \<Rightarrow> string \<Rightarrow> PaperAccount" where
  "record_order account order price now =
     account\<lparr>orders := orders account @
       [\<lparr>rec_orderId = order_id_of account, rec_ticker = ord_ticker order,
         rec_type = ord_type order, rec_side = ord_side order,
         rec_quantity = ord_quantity order, rec_filledPrice = price,
         rec_filledQuantity = ord_quantity order, rec_status = ''filled'',
         rec_timestamp = now\<rparr>]\<rparr>"

definition filled_response :: "string \<Rightarrow> Order \<Rightarrow> real \<Rightarrow> OrderResponse" where
  "filled_response order_id order price =
     \<lparr>rsp_orderId = order_id, rsp_status = ''filled'', rsp_filledPrice = Some price,
      rsp_filledQuantity = Some (ord_quantity order), rsp_message = OrderFilledAt price\<rparr>"

text \<open>
  The whole operation. A rejected response is returned before \<^verbatim>\<open>save_accounts\<close>
  is reached, so the store is the one that was loaded; an exception leaves the file as it was
  too. \<open>market_price\<close> is what \<^verbatim>\<open>get_current_price(order.ticker)\<close> returned and
  \<open>now\<close> the timestamp of the call.
\<close>

definition place_order ::
  "accounts \<Rightarrow> Order \<Rightarrow> real \<Rightarrow> string \<Rightarrow> error + (OrderResponse \<times> accounts)" where
  "place_order accounts order market_price now =
     (case accounts user_id of
        None \<Rightarrow> Inl (HTTPException 404 ''Account not found'')
      | Some account \<Rightarrow>
          if market_price = 0
          then Inr (rejected_response (''Unable to fetch price for '' @ ord_ticker order), accounts)
          else (case execution_price order market_price of
                  Raised e \<Rightarrow> Inl e
                | Rejected m \<Rightarrow> Inr (rejected_response m, accounts)
                | Proceed price \<Rightarrow>
                    (case (if ord_side order = ''buy'' then execute_buy account order price
                           else execute_sell account order price) of
                       Raised e \<Rightarrow> Inl e
                     | Rejected m \<Rightarrow> Inr (rejected_response m, accounts)
                     | Proceed account' \<Rightarrow>
                         Inr (filled_response (order_id_of account') order price,
                              accounts(user_id \<mapsto> record_order account' order price now)))))"

subsection \<open>Reset: \<^verbatim>\<open>reset_account\<close>\<close>

definition fresh_account :: "string \<Rightarrow> PaperAccount" where
  "fresh_account now =
     \<lparr>userId = user_id, cash = STARTING_CASH, positions = [], orders = [],
      totalValue = None, totalPL = None, totalPLPercent = None, createdAt = now\<rparr>"

definition reset_account :: "accounts \<Rightarrow> string \<Rightarrow> (string \<times> real) \<times> accounts" where
  "reset_account accounts now =
     ((''Account reset successfully'', STARTING_CASH), accounts(user_id \<mapsto> fresh_account now))"

subsection \<open>Concrete accounts and orders\<close>

text \<open>
  The example of the specification: a fresh account buys 10 shares of XYZ at a market price
  of 50 and then sells them at a market price of 60.
\<close>

definition ex_accounts0 :: accounts where
  "ex_accounts0 = Map.empty(user_id \<mapsto> fresh_account ''2024-01-01T00:00:00'')"

definition ex_buy :: Order where
  "ex_buy = \<lparr>ord_ticker = ''XYZ'', ord_type = ''market'', ord_side = ''buy'',
             ord_quantity = 10, ord_limitPrice = None\<rparr>"

definition ex_sell :: Order where
  "ex_sell = \<lparr>ord_ticker = ''XYZ'', ord_type = ''market'', ord_side = ''sell'',
              ord_quantity = 10, ord_limitPrice = None\<rparr>"

definition ex_position1 :: Position where
  "ex_position1 =
     \<lparr>pos_ticker = ''XYZ'', pos_quantity = 10, pos_avgCostBasis = 5005 / 100,
      pos_currentPrice = None, pos_marketValue = None, pos_unrealizedPL = None,
      pos_unrealizedPLPercent = None\<rparr>"

definition ex_record1 :: OrderRecord where
  "ex_record1 =
     \<lparr>rec_orderId = ''order_1'', rec_ticker = ''XYZ'', rec_type = ''market'',
      rec_side = ''buy'', rec_quantity = 10, rec_filledPrice = 5005 / 100,
      rec_filledQuantity = 10, rec_status = ''filled'', rec_timestamp = ''2024-01-02T10:00:00''\<rparr>"

definition ex_account1 :: PaperAccount where
  "ex_account1 =
     \<lparr>userId = user_id, cash = 994995 / 10, positions = [ex_position1], orders = [ex_record1],
      totalValue = None, totalPL = None, totalPLPercent = None,
      createdAt = ''2024-01-01T00:00:00''\<rparr>"

definition ex_accounts1 :: accounts where
  "ex_accounts1 = Map.empty(user_id \<mapsto> ex_account1)"

text \<open>Orders with a quantity that is not positive.\<close>

definition ex_zero_buy :: Order where
  "ex_zero_buy = \<lparr>ord_ticker = ''ABC'', ord_type = ''market'', ord_side = ''buy'',
                  ord_quantity = 0, ord_limitPrice = None\<rparr>"

definition ex_negative_sell :: Order where
  "ex_negative_sell = \<lparr>ord_ticker = ''XYZ'', ord_type = ''market'', ord_side = ''sell'',
                       ord_quantity = - 2000, ord_limitPrice = None\<rparr>"

text \<open>A limit buy above the market that the fresh account cannot pay for.\<close>

definition ex_limit_buy :: Order where
  "ex_limit_buy = \<lparr>ord_ticker = ''XYZ'', ord_type = ''limit'', ord_side = ''buy'',
                   ord_quantity = 3000, ord_limitPrice = Some 55\<rparr>"


text \<open>The account \<open>ex_account1\<close> after the sale of minus 2000 shares at a market price of 60.\<close>

definition ex_overdrawn_account :: PaperAccount where
  "ex_overdrawn_account =
     ex_account1\<lparr>cash := - (203805 / 10),
       positions := [ex_position1\<lparr>pos_quantity := 2010\<rparr>],
       orders := [ex_record1,
         \<lparr>rec_orderId = ''order_2'', rec_ticker = ''XYZ'', rec_type = ''market'',
          rec_side = ''sell'', rec_quantity = - 2000, rec_filledPrice = 5994 / 100,
          rec_filledQuantity = - 2000, rec_status = ''filled'',
          rec_timestamp = ''2024-01-03T10:00:00''\<rparr>]\<rparr>"

text \<open>The fresh account after the purchase of 0 shares of ABC at a market price of 50.\<close>

definition ex_zero_account :: PaperAccount where
  "ex_zero_account =
     (fresh_account ''2024-01-01T00:00:00'')
       \<lparr>positions := [\<lparr>pos_ticker = ''ABC'', pos_quantity = 0, pos_avgCostBasis = 5005 / 100,
            pos_currentPrice = None, pos_marketValue = None, pos_unrealizedPL = None,
            pos_unrealizedPLPercent = None\<rparr>],
        orders := [\<lparr>rec_orderId = ''order_1'', rec_ticker = ''ABC'', rec_type = ''market'',
          rec_side = ''buy'', rec_quantity = 0, rec_filledPrice = 5005 / 100,
          rec_filledQuantity = 0, rec_status = ''filled'',
          rec_timestamp = ''2024-01-02T10:00:00''\<rparr>]\<rparr>"

text \<open>A position of negative quantity, as a buy of a negative quantity leaves it, and a price source.\<close>

definition ex_short_position :: Position where
  "ex_short_position =
     \<lparr>pos_ticker = ''XYZ'', pos_quantity = - 1, pos_avgCostBasis = 10,
      pos_currentPrice = None, pos_marketValue = None, pos_unrealizedPL = None,
      pos_unrealizedPLPercent = None\<rparr>"

definition ex_short_account :: PaperAccount where
  "ex_short_account =
     \<lparr>userId = user_id, cash = 100010, positions = [ex_short_position], orders = [],
      totalValue = None, totalPL = None, totalPLPercent = None,
      createdAt = ''2024-01-01T00:00:00''\<rparr>"

definition ex_prices :: "string \<Rightarrow> real" where
  "ex_prices t = 5"

section \<open>Evaluation of the concrete orders\<close>

lemma str_nat_1: "str_nat (Suc 0) = ''1''"
  by (simp add: str_nat.simps digit_char_def)

lemma str_nat_2: "str_nat (Suc (Suc 0)) = ''2''"
  by (simp add: str_nat.simps digit_char_def)

lemma ex_buy_run:
  "place_order ex_accounts0 ex_buy 50 ''2024-01-02T10:00:00'' =
     Inr (filled_response ''order_1'' ex_buy (5005 / 100), ex_accounts0(user_id \<mapsto> ex_account1))"
  by (simp add: place_order_def ex_accounts0_def ex_buy_def fresh_account_def execution_price_def
      apply_slippage_def SLIPPAGE_PERCENT_def COMMISSION_PER_TRADE_def STARTING_CASH_def
      execute_buy_def record_order_def order_id_of_def str_nat_1 ex_account1_def ex_position1_def
      ex_record1_def Let_def)

lemma ex_sell_run:
  "place_order ex_accounts1 ex_sell 60 ''2024-01-03T10:00:00'' =
     Inr (filled_response ''order_2'' ex_sell (5994 / 100),
          ex_accounts1(user_id \<mapsto> ex_account1\<lparr>cash := 1000989 / 10, positions := [],
             orders := [ex_record1,
               \<lparr>rec_orderId = ''order_2'', rec_ticker = ''XYZ'', rec_type = ''market'',
                rec_side = ''sell'', rec_quantity = 10, rec_filledPrice = 5994 / 100,
                rec_filledQuantity = 10, rec_status = ''filled'',
                rec_timestamp = ''2024-01-03T10:00:00''\<rparr>]\<rparr>))"
  by (simp add: place_order_def ex_accounts1_def ex_sell_def execution_price_def
      apply_slippage_def SLIPPAGE_PERCENT_def COMMISSION_PER_TRADE_def
      execute_sell_def record_order_def order_id_of_def str_nat_2 ex_account1_def ex_position1_def
      ex_record1_def Let_def)

lemma ex_negative_sell_run:
  "place_order ex_accounts1 ex_negative_sell 60 ''2024-01-03T10:00:00'' =
     Inr (filled_response ''order_2'' ex_negative_sell (5994 / 100),
          ex_accounts1(user_id \<mapsto> ex_overdrawn_account))"
  by (simp add: place_order_def ex_accounts1_def ex_negative_sell_def execution_price_def
      apply_slippage_def SLIPPAGE_PERCENT_def COMMISSION_PER_TRADE_def
      execute_sell_def record_order_def order_id_of_def str_nat_2 ex_account1_def ex_position1_def
      ex_record1_def ex_overdrawn_account_def Let_def)

lemma ex_zero_buy_run:
  "place_order ex_accounts0 ex_zero_buy 50 ''2024-01-02T10:00:00'' =
     Inr (filled_response ''order_1'' ex_zero_buy (5005 / 100),
          ex_accounts0(user_id \<mapsto> (fresh_account ''2024-01-01T00:00:00'')
            \<lparr>positions := [\<lparr>pos_ticker = ''ABC'', pos_quantity = 0, pos_avgCostBasis = 5005 / 100,
                 pos_currentPrice = None, pos_marketValue = None, pos_unrealizedPL = None,
                 pos_unrealizedPLPercent = None\<rparr>],
              orders := [\<lparr>rec_orderId = ''order_1'', rec_ticker = ''ABC'', rec_type = ''market'',
                rec_side = ''buy'', rec_quantity = 0, rec_filledPrice = 5005 / 100,
                rec_filledQuantity = 0, rec_status = ''filled'',
                rec_timestamp = ''2024-01-02T10:00:00''\<rparr>]\<rparr>))"
  by (simp add: place_order_def ex_accounts0_def ex_zero_buy_def fresh_account_def execution_price_def
      apply_slippage_def SLIPPAGE_PERCENT_def COMMISSION_PER_TRADE_def STARTING_CASH_def
      execute_buy_def record_order_def order_id_of_def str_nat_1 Let_def)

lemma ex_limit_buy_run:
  "place_order ex_accounts0 ex_limit_buy 50 ''2024-01-02T10:00:00'' =
     Inr (rejected_response ''Insufficient funds'', ex_accounts0)"
  by (simp add: place_order_def ex_accounts0_def ex_limit_buy_def fresh_account_def execution_price_def
      COMMISSION_PER_TRADE_def STARTING_CASH_def execute_buy_def Let_def)

section \<open>Basic facts about the blocks of \<^verbatim>\<open>place_order\<close>\<close>

lemma place_order_Inr_cases:
  assumes "place_order accounts order mp now = Inr (resp, accounts')"
  obtains (rejected) m where "resp = rejected_response m" "accounts' = accounts"
  | (filled) account price account' where
      "accounts user_id = Some account" "mp \<noteq> 0"
      "execution_price order mp = Proceed price"
      "(if ord_side order = ''buy'' then execute_buy account order price
        else execute_sell account order price) = Proceed account'"
      "resp = filled_response (order_id_of account') order price"
      "accounts' = accounts(user_id \<mapsto> record_order account' order price now)"
  using assms unfolding place_order_def
  by (auto split: option.splits if_splits outcome.splits)

lemma rejected_status [simp]: "rsp_status (rejected_response m) = ''rejected''"
  by (simp add: rejected_response_def)

lemma filled_status [simp]: "rsp_status (filled_response i order p) = ''filled''"
  by (simp add: filled_response_def)

lemma filled_price [simp]: "rsp_filledPrice (filled_response i order p) = Some p"
  by (simp add: filled_response_def)

lemma filled_quantity [simp]:
  "rsp_filledQuantity (filled_response i order p) = Some (ord_quantity order)"
  by (simp add: filled_response_def)

lemma record_order_cash [simp]: "cash (record_order a order p now) = cash a"
  by (simp add: record_order_def)

lemma record_order_positions [simp]: "positions (record_order a order p now) = positions a"
  by (simp add: record_order_def)

lemma execute_buy_cash:
  "execute_buy account order price = Proceed account' \<Longrightarrow>
   cash account' = cash account - (ord_quantity order * price + COMMISSION_PER_TRADE)
   \<and> ord_quantity order * price + COMMISSION_PER_TRADE \<le> cash account
   \<and> orders account' = orders account"
  unfolding execute_buy_def
  by (auto simp: Let_def split: if_splits option.splits)

lemma execute_sell_cash:
  "execute_sell account order price = Proceed account' \<Longrightarrow>
   cash account' = cash account + (ord_quantity order * price - COMMISSION_PER_TRADE)
   \<and> orders account' = orders account"
  unfolding execute_sell_def
  by (auto simp: Let_def split: if_splits option.splits)

lemma record_order_orders:
  "\<exists>r. orders (record_order a order p now) = orders a @ [r] \<and> rec_status r = ''filled''"
  by (simp add: record_order_def)

lemma execution_price_Rejected:
  "execution_price order mp = Rejected m \<Longrightarrow>
     m = ''Limit price required for limit orders'' \<or>
     m = ''Limit price not favorable for immediate execution''"
  unfolding execution_price_def by (auto split: if_splits option.splits)

lemma execution_price_not_Raised: "execution_price order mp \<noteq> Raised e"
  unfolding execution_price_def by (auto split: if_splits option.splits)

lemma execute_buy_Rejected:
  "execute_buy account order price = Rejected m \<Longrightarrow> m = ''Insufficient funds''"
  unfolding execute_buy_def by (simp add: Let_def split: if_splits option.splits)

lemma execute_sell_Rejected:
  "execute_sell account order price = Rejected m \<Longrightarrow>
     m = ''No position to sell'' \<or> m = ''Insufficient shares''"
  unfolding execute_sell_def by (simp add: Let_def split: if_splits option.splits)

lemma rejected_response_inj [simp]: "rejected_response m' = rejected_response m \<longleftrightarrow> m' = m"
  by (auto simp add: rejected_response_def)

lemma filled_not_rejected [simp]:
  "filled_response i order p \<noteq> rejected_response m"
  "rejected_response m \<noteq> filled_response i order p"
  by (simp_all add: filled_response_def rejected_response_def)

lemma place_order_rejected_message:
  assumes "place_order accounts order mp now = Inr (rejected_response m, accounts')"
  shows "m \<in> {''Unable to fetch price for '' @ ord_ticker order,
               ''Limit price required for limit orders'',
               ''Limit price not favorable for immediate execution'',
               ''Insufficient funds'', ''No position to sell'', ''Insufficient shares''}"
  using assms
proof (cases rule: place_order_Inr_cases)
  case (filled account price account')
  then show ?thesis by simp
next
  case (rejected m')
  then have mm: "m' = m" by simp
  obtain account where a: "accounts user_id = Some account"
    using assms unfolding place_order_def by (cases "accounts user_id") auto
  show ?thesis
  proof (cases "mp = 0")
    case True
    with assms a show ?thesis unfolding place_order_def by simp
  next
    case mp: False
    show ?thesis
    proof (cases "execution_price order mp")
      case (Raised e)
      then show ?thesis by (simp add: execution_price_not_Raised)
    next
      case (Rejected x)
      with assms a mp have "x = m" unfolding place_order_def by simp
      with execution_price_Rejected [OF Rejected] show ?thesis by (elim disjE) simp_all
    next
      case (Proceed price)
      show ?thesis
      proof (cases "ord_side order = ''buy''")
        case True
        with assms a mp Proceed have "execute_buy account order price = Rejected m"
          unfolding place_order_def by (cases "execute_buy account order price") simp_all
        from execute_buy_Rejected [OF this] show ?thesis by simp
      next
        case False
        with assms a mp Proceed have "execute_sell account order price = Rejected m"
          unfolding place_order_def by (cases "execute_sell account order price") simp_all
        from execute_sell_Rejected [OF this] show ?thesis by (elim disjE) simp_all
      qed
    qed
  qed
qed

section \<open>Cash conservation\<close>

text \<open>
  Claim C2. A filled buy lowers the cash of the account by exactly quantity times execution
  price plus commission, and a filled sell raises it by exactly quantity times execution price
  minus commission; the execution price is the filled price of the response.
\<close>

theorem place_order_cash_conservation:
  assumes "accounts user_id = Some account"
    and "place_order accounts order market_price now = Inr (resp, accounts')"
    and "rsp_status resp = ''filled''"
  shows "\<exists>account' price.
           accounts' user_id = Some account' \<and>
           execution_price order market_price = Proceed price \<and>
           rsp_filledPrice resp = Some price \<and>
           cash account' =
             (if ord_side order = ''buy''
              then cash account - (ord_quantity order * price + COMMISSION_PER_TRADE)
              else cash account + (ord_quantity order * price - COMMISSION_PER_TRADE))"
  using assms(2)
proof (cases rule: place_order_Inr_cases)
  case (rejected m)
  with assms(3) show ?thesis by simp
next
  case (filled a price account')
  with assms(1) have a: "a = account" by simp
  show ?thesis
  proof (cases "ord_side order = ''buy''")
    case True
    with filled(4) a have "execute_buy account order price = Proceed account'" by simp
    from execute_buy_cash [OF this] filled True show ?thesis by simp
  next
    case False
    with filled(4) a have "execute_sell account order price = Proceed account'" by simp
    from execute_sell_cash [OF this] filled False show ?thesis by simp
  qed
qed

theorem place_order_cash_conservation_witness:
  "(\<exists>account'. (ex_accounts0(user_id \<mapsto> ex_account1)) user_id = Some account' \<and>
      cash account' =
        cash (fresh_account ''2024-01-01T00:00:00'') - (10 * (5005 / 100) + COMMISSION_PER_TRADE)) \<and>
   (\<exists>resp accounts' account'.
      place_order ex_accounts1 ex_sell 60 ''2024-01-03T10:00:00'' = Inr (resp, accounts') \<and>
      accounts' user_id = Some account' \<and>
      cash account' = cash ex_account1 + (10 * (5994 / 100) - COMMISSION_PER_TRADE))"
proof -
  have a: "ex_accounts0 user_id = Some (fresh_account ''2024-01-01T00:00:00'')"
    by (simp add: ex_accounts0_def)
  have a1: "ex_accounts1 user_id = Some ex_account1"
    by (simp add: ex_accounts1_def)
  have f: "rsp_status (filled_response ''order_1'' ex_buy (5005 / 100)) = ''filled''"
    "rsp_status (filled_response ''order_2'' ex_sell (5994 / 100)) = ''filled''"
    by simp_all
  from place_order_cash_conservation [OF a ex_buy_run f(1)]
  have 1: "\<exists>account'. (ex_accounts0(user_id \<mapsto> ex_account1)) user_id = Some account' \<and>
      cash account' =
        cash (fresh_account ''2024-01-01T00:00:00'') - (10 * (5005 / 100) + COMMISSION_PER_TRADE)"
    by (auto simp: ex_buy_def)
  from place_order_cash_conservation [OF a1 ex_sell_run f(2)] ex_sell_run
  have 2: "\<exists>resp accounts' account'.
      place_order ex_accounts1 ex_sell 60 ''2024-01-03T10:00:00'' = Inr (resp, accounts') \<and>
      accounts' user_id = Some account' \<and>
      cash account' = cash ex_account1 + (10 * (5994 / 100) - COMMISSION_PER_TRADE)"
    by (auto simp: ex_sell_def)
  from 1 2 show ?thesis by (rule conjI)
qed

section \<open>Rejected orders\<close>

text \<open>
  Claim C6. An order that \<^verbatim>\<open>place_order\<close> rejects, for any of its six reasons
  (price unavailable, missing limit price, unfavourable limit, insufficient funds, no position
  to sell, insufficient shares), leaves the stored accounts, hence cash, positions and order
  history, exactly as they were, and its response carries no order id. Every response that is
  not a rejection is a fill, and it appends exactly one record, of status filled, to the
  history: the history holds filled orders only.
\<close>

theorem rejected_order_leaves_state:
  assumes "place_order accounts order market_price now = Inr (resp, accounts')"
  shows "(rsp_status resp = ''rejected'' \<longrightarrow>
            accounts' = accounts \<and> rsp_orderId resp = '''' \<and>
            (\<exists>m. rsp_message resp = Text m \<and>
               m \<in> {''Unable to fetch price for '' @ ord_ticker order,
                     ''Limit price required for limit orders'',
                     ''Limit price not favorable for immediate execution'',
                     ''Insufficient funds'', ''No position to sell'', ''Insufficient shares''}))
       \<and> (rsp_status resp \<noteq> ''rejected'' \<longrightarrow>
            rsp_status resp = ''filled'' \<and>
            (\<exists>account account' r.
               accounts user_id = Some account \<and> accounts' user_id = Some account' \<and>
               orders account' = orders account @ [r] \<and> rec_status r = ''filled''))"
proof -
  define reasons where "reasons =
    {''Unable to fetch price for '' @ ord_ticker order,
     ''Limit price required for limit orders'',
     ''Limit price not favorable for immediate execution'',
     ''Insufficient funds'', ''No position to sell'', ''Insufficient shares''}"
  define is_rejected where "is_rejected \<longleftrightarrow> rsp_status resp = ''rejected''"
  define is_filled where "is_filled \<longleftrightarrow> rsp_status resp = ''filled''"
  define appended where "appended \<longleftrightarrow>
    (\<exists>account account' r.
       accounts user_id = Some account \<and> accounts' user_id = Some account' \<and>
       orders account' = orders account @ [r] \<and> rec_status r = ''filled'')"
  have "(is_rejected \<longrightarrow>
            accounts' = accounts \<and> rsp_orderId resp = '''' \<and>
            (\<exists>m. rsp_message resp = Text m \<and> m \<in> reasons))
       \<and> (\<not> is_rejected \<longrightarrow> is_filled \<and> appended)"
    using assms
  proof (cases rule: place_order_Inr_cases)
    case (rejected m)
    with assms have "place_order accounts order market_price now = Inr (rejected_response m, accounts')"
      by simp
    from place_order_rejected_message [OF this] have m: "m \<in> reasons"
      unfolding reasons_def .
    have r: "is_rejected" "rsp_orderId resp = ''''" "rsp_message resp = Text m"
      by (simp_all add: rejected rejected_response_def is_rejected_def)
    from m r rejected(2) show ?thesis by blast
  next
    case (filled account price account')
    have o: "orders account' = orders account"
    proof (cases "ord_side order = ''buy''")
      case True
      with filled(4) show ?thesis by (simp add: execute_buy_cash)
    next
      case False
      with filled(4) show ?thesis by (simp add: execute_sell_cash)
    qed
    obtain r where r: "orders (record_order account' order price now) = orders account' @ [r]"
      "rec_status r = ''filled''"
      using record_order_orders by blast
    have f: "is_filled" "\<not> is_rejected"
      by (simp_all add: filled(5) is_filled_def is_rejected_def)
    have a': "accounts' user_id = Some (record_order account' order price now)"
      by (simp add: filled(6))
    from r o have "orders (record_order account' order price now) = orders account @ [r]"
      by simp
    with a' filled(1) r(2) have appended unfolding appended_def by blast
    with f show ?thesis by blast
  qed
  then show ?thesis unfolding reasons_def is_rejected_def is_filled_def appended_def .
qed

theorem rejected_order_leaves_state_witness:
  "rsp_status (rejected_response ''Insufficient funds'') = ''rejected'' \<and>
   rsp_orderId (rejected_response ''Insufficient funds'') = [] \<and>
   rsp_status (filled_response ''order_1'' ex_buy (5005 / 100)) \<noteq> ''rejected'' \<and>
   (\<exists>account account' r.
      ex_accounts0 user_id = Some account \<and>
      (ex_accounts0(user_id \<mapsto> ex_account1)) user_id = Some account' \<and>
      orders account' = orders account @ [r] \<and> rec_status r = ''filled'')"
proof -
  have 1: "rsp_status (rejected_response ''Insufficient funds'') = ''rejected''"
    by simp
  have 2: "rsp_status (filled_response ''order_1'' ex_buy (5005 / 100)) \<noteq> ''rejected''"
    by simp
  from rejected_order_leaves_state [OF ex_limit_buy_run, THEN conjunct1, rule_format, OF 1]
  have 3: "rsp_orderId (rejected_response ''Insufficient funds'') = []"
    by (rule conjunct2 [THEN conjunct1])
  from rejected_order_leaves_state [OF ex_buy_run, THEN conjunct2, rule_format, OF 2]
  have "\<exists>account account' r.
      ex_accounts0 user_id = Some account \<and>
      (ex_accounts0(user_id \<mapsto> ex_account1)) user_id = Some account' \<and>
      orders account' = orders account @ [r] \<and> rec_status r = ''filled''"
    by (rule conjunct2)
  with 1 2 3 show ?thesis by (intro conjI)
qed

section \<open>Slippage\<close>

lemma apply_slippage_rate:
  "apply_slippage p side = (if side = ''buy'' then p * (1 + 1 / 1000) else p * (1 - 1 / 1000))"
  by (simp add: apply_slippage_def SLIPPAGE_PERCENT_def Let_def algebra_simps)

lemma execution_price_limit:
  "ord_type order \<noteq> ''market'' \<Longrightarrow> execution_price order mp = Proceed price \<Longrightarrow>
     ord_limitPrice order = Some price"
  unfolding execution_price_def by (simp split: option.splits if_splits)

text \<open>
  Claim C7. The configured slippage rate is the fraction 0.001. For a market order with
  reference price \<open>p\<close> the execution price is \<open>p * (1 + 0.001)\<close> for a buy and
  \<open>p * (1 - 0.001)\<close> for a sell. A limit order never gets slippage: its execution
  price, when it has one, is its limit price. The filled price of every filled order is the
  execution price so determined.
\<close>

theorem market_order_slippage:
  "SLIPPAGE_PERCENT / 100 = 1 / 1000 \<and>
   apply_slippage p side = (if side = ''buy'' then p * (1 + 1 / 1000) else p * (1 - 1 / 1000)) \<and>
   (ord_type order = ''market'' \<longrightarrow>
      execution_price order p =
        Proceed (if ord_side order = ''buy'' then p * (1 + 1 / 1000) else p * (1 - 1 / 1000))) \<and>
   (ord_type order \<noteq> ''market'' \<longrightarrow>
      (\<forall>price. execution_price order p = Proceed price \<longrightarrow> ord_limitPrice order = Some price)) \<and>
   (\<forall>accounts now resp accounts'.
      place_order accounts order p now = Inr (resp, accounts') \<longrightarrow> rsp_status resp = ''filled'' \<longrightarrow>
      rsp_filledPrice resp =
        (if ord_type order = ''market''
         then Some (if ord_side order = ''buy'' then p * (1 + 1 / 1000) else p * (1 - 1 / 1000))
         else ord_limitPrice order))"
proof -
  have rate: "SLIPPAGE_PERCENT / 100 = 1 / 1000"
    by (simp add: SLIPPAGE_PERCENT_def)
  have market: "execution_price order p =
        Proceed (if ord_side order = ''buy'' then p * (1 + 1 / 1000) else p * (1 - 1 / 1000))"
    if "ord_type order = ''market''"
    using that unfolding execution_price_def by (simp add: apply_slippage_rate)
  have limit: "ord_limitPrice order = Some price"
    if "ord_type order \<noteq> ''market''" "execution_price order p = Proceed price" for price
    using that by (rule execution_price_limit)
  have fill: "rsp_filledPrice resp =
        (if ord_type order = ''market''
         then Some (if ord_side order = ''buy'' then p * (1 + 1 / 1000) else p * (1 - 1 / 1000))
         else ord_limitPrice order)"
    if run: "place_order accounts order p now = Inr (resp, accounts')"
      and f: "rsp_status resp = ''filled''" for accounts now resp accounts'
    using run
  proof (cases rule: place_order_Inr_cases)
    case (rejected m)
    with f show ?thesis by simp
  next
    case (filled account price account')
    show ?thesis
    proof (cases "ord_type order = ''market''")
      case True
      from market [OF True] filled(3) filled(5) True show ?thesis by simp
    next
      case False
      from limit [OF False filled(3)] filled(5) False show ?thesis by simp
    qed
  qed
  from rate apply_slippage_rate market limit fill show ?thesis by blast
qed

theorem market_order_slippage_witness:
  "execution_price ex_buy 50 = Proceed (5005 / 100) \<and>
   execution_price ex_sell 60 = Proceed (5994 / 100) \<and>
   rsp_filledPrice (filled_response ''order_1'' ex_buy (5005 / 100)) = Some (5005 / 100) \<and>
   execution_price ex_limit_buy 50 = Proceed 55 \<and>
   ord_limitPrice ex_limit_buy = Some 55"
proof -
  have b: "ord_type ex_buy = ''market''" "ord_side ex_buy = ''buy''"
    by (simp_all add: ex_buy_def)
  have s: "ord_type ex_sell = ''market''" "ord_side ex_sell \<noteq> ''buy''"
    by (simp_all add: ex_sell_def)
  have l: "ord_type ex_limit_buy \<noteq> ''market''" "execution_price ex_limit_buy 50 = Proceed 55"
    by (simp_all add: ex_limit_buy_def execution_price_def)
  from market_order_slippage [of 50 _ ex_buy] b
  have 1: "execution_price ex_buy 50 = Proceed (5005 / 100)" by simp
  from market_order_slippage [of 60 _ ex_sell] s
  have 2: "execution_price ex_sell 60 = Proceed (5994 / 100)" by simp
  have f: "rsp_status (filled_response ''order_1'' ex_buy (5005 / 100)) = ''filled''"
    by simp
  from market_order_slippage [of 50 _ ex_buy, THEN conjunct2, THEN conjunct2, THEN conjunct2,
      THEN conjunct2, rule_format, OF ex_buy_run f] b
  have 3: "rsp_filledPrice (filled_response ''order_1'' ex_buy (5005 / 100)) = Some (5005 / 100)"
    by simp
  from market_order_slippage [of 50 _ ex_limit_buy, THEN conjunct2, THEN conjunct2,
      THEN conjunct2, THEN conjunct1, rule_format, OF l]
  have 4: "ord_limitPrice ex_limit_buy = Some 55" .
  from 1 2 3 l(2) 4 show ?thesis by (intro conjI)
qed

section \<open>Orders of non-positive quantity\<close>

text \<open>
  Claim C10. \<^verbatim>\<open>place_order\<close> does not check that the quantity is positive. A market
  buy of quantity 0 at an available price is filled and appends an order record (and a
  position of quantity 0); a sell of a negative quantity on a held position is filled and
  lowers the cash.
\<close>

theorem nonpositive_quantity_filled:
  "ord_quantity ex_zero_buy = 0 \<and>
   (\<exists>resp accounts' account'.
      place_order ex_accounts0 ex_zero_buy 50 ''2024-01-02T10:00:00'' = Inr (resp, accounts') \<and>
      rsp_status resp = ''filled'' \<and> accounts' user_id = Some account' \<and>
      length (orders account') = Suc (length (orders (fresh_account ''2024-01-01T00:00:00''))) \<and>
      map pos_quantity (positions account') = [0]) \<and>
   ord_quantity ex_negative_sell < 0 \<and>
   (\<exists>resp accounts' account'.
      place_order ex_accounts1 ex_negative_sell 60 ''2024-01-03T10:00:00'' = Inr (resp, accounts') \<and>
      rsp_status resp = ''filled'' \<and> accounts' user_id = Some account' \<and>
      cash account' < cash ex_account1)"
proof -
  have z: "ord_quantity ex_zero_buy = 0" by (simp add: ex_zero_buy_def)
  have n: "ord_quantity ex_negative_sell < 0" by (simp add: ex_negative_sell_def)
  have c: "cash ex_overdrawn_account < cash ex_account1"
    by (simp add: ex_overdrawn_account_def ex_account1_def)
  have "\<exists>resp accounts' account'.
      place_order ex_accounts0 ex_zero_buy 50 ''2024-01-02T10:00:00'' = Inr (resp, accounts') \<and>
      rsp_status resp = ''filled'' \<and> accounts' user_id = Some account' \<and>
      length (orders account') = Suc (length (orders (fresh_account ''2024-01-01T00:00:00''))) \<and>
      map pos_quantity (positions account') = [0]"
    unfolding ex_zero_buy_run by (simp add: fresh_account_def)
  moreover have "\<exists>resp accounts' account'.
      place_order ex_accounts1 ex_negative_sell 60 ''2024-01-03T10:00:00'' = Inr (resp, accounts') \<and>
      rsp_status resp = ''filled'' \<and> accounts' user_id = Some account' \<and>
      cash account' < cash ex_account1"
    unfolding ex_negative_sell_run using c by simp
  ultimately show ?thesis using z n by (intro conjI)
qed

section \<open>Limit orders\<close>








section \<open>Reset\<close>

text \<open>
  Claim C9, as the code has it. \<^verbatim>\<open>reset_account\<close> stores, for the user, an account
  with cash equal to the starting capital, no positions and no orders, created at the time of
  the reset, whatever the accounts were before. A second reset gives the state of the first
  one except for \<open>createdAt\<close>, which becomes the time of the second reset: it is the
  state one reset at that time gives. Two resets at one clock reading give the state of one.
\<close>

theorem reset_account_state:
  "snd (reset_account accounts now) = accounts(user_id \<mapsto> fresh_account now) \<and>
   userId (fresh_account now) = user_id \<and>
   cash (fresh_account now) = STARTING_CASH \<and>
   positions (fresh_account now) = [] \<and>
   orders (fresh_account now) = [] \<and>
   createdAt (fresh_account now) = now \<and>
   snd (reset_account (snd (reset_account accounts now)) now') =
     accounts(user_id \<mapsto> (fresh_account now)\<lparr>createdAt := now'\<rparr>) \<and>
   snd (reset_account (snd (reset_account accounts now)) now') = snd (reset_account accounts now') \<and>
   snd (reset_account (snd (reset_account accounts now)) now) = snd (reset_account accounts now)"
  by (simp add: reset_account_def fresh_account_def)

text \<open>
  The claim as stated fails: after a reset on the first of February and another on the second,
  the stored account is not the one the first reset stored; its \<open>createdAt\<close> differs.
\<close>

theorem reset_idempotent_counterexample:
  "snd (reset_account (snd (reset_account ex_accounts0 ''2024-02-01T00:00:00'')) ''2024-02-02T00:00:00'')
     \<noteq> snd (reset_account ex_accounts0 ''2024-02-01T00:00:00'')"
proof
  assume "snd (reset_account (snd (reset_account ex_accounts0 ''2024-02-01T00:00:00'')) ''2024-02-02T00:00:00'')
     = snd (reset_account ex_accounts0 ''2024-02-01T00:00:00'')"
  then have "snd (reset_account (snd (reset_account ex_accounts0 ''2024-02-01T00:00:00'')) ''2024-02-02T00:00:00'') user_id
     = snd (reset_account ex_accounts0 ''2024-02-01T00:00:00'') user_id"
    by (rule arg_cong)
  then show False
    by (simp add: reset_account_def fresh_account_def)
qed

section \<open>Valuation\<close>

lemma metrics_loop_eq:
  "metrics_loop get_current_price ps total_market_value =
     (map (\<lambda>p. fst (position_metrics get_current_price p)) ps,
      total_market_value + (\<Sum>p\<leftarrow>ps. pos_quantity p * get_current_price (pos_ticker p)))"
proof (induction ps arbitrary: total_market_value)
  case Nil
  show ?case by simp
next
  case (Cons p ps)
  have m: "position_metrics get_current_price p =
      (fst (position_metrics get_current_price p),
       pos_quantity p * get_current_price (pos_ticker p))"
    by (simp add: position_metrics_def Let_def)
  show ?case
    by (subst metrics_loop.simps, subst m) (simp add: Cons.IH add.assoc)
qed

text \<open>
  Claim C8, as the code has it. With the price the oracle gives for each ticker (0 when none
  is available), valuation gives every position its current price, its market value quantity
  times current price, its unrealized profit market value minus cost basis, where the cost
  basis is quantity times average cost, and the percentage unrealized profit over cost basis
  times 100 when the cost basis is positive, 0 when it is zero or negative. The totals are
  total value, cash plus the sum of the market values; total profit, total value minus
  starting capital; and total profit percent, total profit over starting capital times 100.
\<close>

theorem calculate_account_metrics_values:
  "positions (calculate_account_metrics get_current_price account) =
     map (\<lambda>p. p\<lparr>pos_currentPrice := Some (get_current_price (pos_ticker p)),
                 pos_marketValue := Some (pos_quantity p * get_current_price (pos_ticker p)),
                 pos_unrealizedPL :=
                   Some (pos_quantity p * get_current_price (pos_ticker p)
                         - pos_quantity p * pos_avgCostBasis p),
                 pos_unrealizedPLPercent :=
                   Some (if pos_quantity p * pos_avgCostBasis p > 0
                         then (pos_quantity p * get_current_price (pos_ticker p)
                               - pos_quantity p * pos_avgCostBasis p)
                              / (pos_quantity p * pos_avgCostBasis p) * 100
                         else 0)\<rparr>)
       (positions account) \<and>
   totalValue (calculate_account_metrics get_current_price account) =
     Some (cash account + (\<Sum>p\<leftarrow>positions account. pos_quantity p * get_current_price (pos_ticker p))) \<and>
   totalPL (calculate_account_metrics get_current_price account) =
     Some (cash account + (\<Sum>p\<leftarrow>positions account. pos_quantity p * get_current_price (pos_ticker p))
           - STARTING_CASH) \<and>
   totalPLPercent (calculate_account_metrics get_current_price account) =
     Some ((cash account + (\<Sum>p\<leftarrow>positions account. pos_quantity p * get_current_price (pos_ticker p))
            - STARTING_CASH) / STARTING_CASH * 100) \<and>
   cash (calculate_account_metrics get_current_price account) = cash account \<and>
   orders (calculate_account_metrics get_current_price account) = orders account"
proof -
  have s: "0 < STARTING_CASH" by (simp add: STARTING_CASH_def)
  have f: "fst (position_metrics get_current_price p) =
      p\<lparr>pos_currentPrice := Some (get_current_price (pos_ticker p)),
        pos_marketValue := Some (pos_quantity p * get_current_price (pos_ticker p)),
        pos_unrealizedPL :=
          Some (pos_quantity p * get_current_price (pos_ticker p)
                - pos_quantity p * pos_avgCostBasis p),
        pos_unrealizedPLPercent :=
          Some (if pos_quantity p * pos_avgCostBasis p > 0
                then (pos_quantity p * get_current_price (pos_ticker p)
                      - pos_quantity p * pos_avgCostBasis p)
                     / (pos_quantity p * pos_avgCostBasis p) * 100
                else 0)\<rparr>" for p
    by (simp add: position_metrics_def Let_def)
  show ?thesis
    unfolding calculate_account_metrics_def metrics_loop_eq Let_def
    using s by (simp add: f)
qed

text \<open>
  The claim as stated fails: the position of \<open>ex_short_account\<close> has cost basis
  \<open>-10\<close>, not 0, and unrealized profit 5, so the claimed percentage is \<open>-50\<close>;
  valuation stores 0.
\<close>

theorem unrealized_percent_counterexample:
  "positions (calculate_account_metrics ex_prices ex_short_account) =
     [ex_short_position\<lparr>pos_currentPrice := Some 5, pos_marketValue := Some (- 5),
        pos_unrealizedPL := Some 5, pos_unrealizedPLPercent := Some 0\<rparr>] \<and>
   pos_quantity ex_short_position * pos_avgCostBasis ex_short_position = - 10 \<and>
   5 / (pos_quantity ex_short_position * pos_avgCostBasis ex_short_position) * 100 = (- 50 :: real)"
  by (simp add: calculate_account_metrics_def ex_short_account_def ex_short_position_def
      ex_prices_def position_metrics_def STARTING_CASH_def Let_def)

section \<open>The unchecked quantity: cash and ledger\<close>

text \<open>
  Claim C1 says that no operation drives the cash of an account below zero. The buy branch
  tests the funds before it debits; the sell branch credits quantity times execution price
  without a test, and the quantity of an order is never checked to be positive. The account
  \<open>ex_account1\<close> has cash 99499.5 and holds 10 shares of XYZ; the market sell of minus
  2000 shares at a market price of 60 passes the test of the shares, is filled at 59.94, and
  the stored account has cash -20380.5.
\<close>

theorem sell_negative_quantity_overdraws:
  "ex_accounts1 user_id = Some ex_account1 \<and>
   cash ex_account1 = 994995 / 10 \<and> 0 \<le> cash ex_account1 \<and>
   place_order ex_accounts1 ex_negative_sell 60 ''2024-01-03T10:00:00'' =
     Inr (filled_response ''order_2'' ex_negative_sell (5994 / 100),
          ex_accounts1(user_id \<mapsto> ex_overdrawn_account)) \<and>
   cash ex_overdrawn_account = - (203805 / 10) \<and> cash ex_overdrawn_account < 0"
proof -
  have "ex_accounts1 user_id = Some ex_account1" by (simp add: ex_accounts1_def)
  moreover have "cash ex_account1 = 994995 / 10" "0 \<le> cash ex_account1"
    by (simp_all add: ex_account1_def)
  moreover have "cash ex_overdrawn_account = - (203805 / 10)" "cash ex_overdrawn_account < 0"
    by (simp_all add: ex_overdrawn_account_def)
  ultimately show ?thesis using ex_negative_sell_run by (intro conjI)
qed

text \<open>
  Claim C4 says that a filled sell leaves the average cost basis of the position as it was
  and only lowers its quantity, and that no position of quantity 0 is ever stored. The same
  missing check of the quantity breaks both: the market sell of minus 2000 shares on the 10
  shares of \<open>ex_account1\<close> is filled and leaves a position of 2010 shares (its average
  cost basis is the one it had); and the market buy of 0 shares of ABC on the fresh account is
  filled and stores a position of quantity 0.
\<close>

theorem sell_negative_quantity_raises_holding:
  "positions ex_account1 = [ex_position1] \<and> pos_quantity ex_position1 = 10 \<and>
   place_order ex_accounts1 ex_negative_sell 60 ''2024-01-03T10:00:00'' =
     Inr (filled_response ''order_2'' ex_negative_sell (5994 / 100),
          ex_accounts1(user_id \<mapsto> ex_overdrawn_account)) \<and>
   positions ex_overdrawn_account = [ex_position1\<lparr>pos_quantity := 2010\<rparr>] \<and>
   pos_quantity ex_position1 < pos_quantity (ex_position1\<lparr>pos_quantity := 2010\<rparr>) \<and>
   place_order ex_accounts0 ex_zero_buy 50 ''2024-01-02T10:00:00'' =
     Inr (filled_response ''order_1'' ex_zero_buy (5005 / 100),
          ex_accounts0(user_id \<mapsto> ex_zero_account)) \<and>
   map pos_quantity (positions ex_zero_account) = [0]"
proof -
  have "positions ex_account1 = [ex_position1]" by (simp add: ex_account1_def)
  moreover have "pos_quantity ex_position1 = 10"
    "pos_quantity ex_position1 < pos_quantity (ex_position1\<lparr>pos_quantity := 2010\<rparr>)"
    by (simp_all add: ex_position1_def)
  moreover have "positions ex_overdrawn_account = [ex_position1\<lparr>pos_quantity := 2010\<rparr>]"
    by (simp add: ex_overdrawn_account_def)
  moreover have "place_order ex_accounts0 ex_zero_buy 50 ''2024-01-02T10:00:00'' =
     Inr (filled_response ''order_1'' ex_zero_buy (5005 / 100),
          ex_accounts0(user_id \<mapsto> ex_zero_account))"
    unfolding ex_zero_account_def by (rule ex_zero_buy_run)
  moreover have "map pos_quantity (positions ex_zero_account) = [0]"
    by (simp add: ex_zero_account_def)
  ultimately show ?thesis using ex_negative_sell_run by (intro conjI)
qed

end
